theory Spec2Isabelle
  imports Complex_Main
begin

section \<open>The mission request of \<^verbatim>\<open>converter_schema.go\<close>\<close>

text \<open>
  The Go structs \<^verbatim>\<open>Waylines\<close> and \<^verbatim>\<open>WaylinesWaypoint\<close> become records with the
  fields of the source, in the order of the source. A \<^verbatim>\<open>float64\<close> is a \<open>real\<close>: the
  validator only compares a field with the decimal constants of its tag and with zero,
  which is exact on every finite \<^verbatim>\<open>float64\<close>; NaN and the infinities are outside the
  model. The named string types (\<^verbatim>\<open>DroneModel\<close>, \<^verbatim>\<open>PayloadModel\<close>,
  \<^verbatim>\<open>TemplateType\<close>, \<^verbatim>\<open>FinishAction\<close>, \<^verbatim>\<open>HeightMode\<close>) are strings, as the
  comparison \<^verbatim>\<open>w.HeightType == ""\<close> and the README's constants show. A pointer field
  (\<^verbatim>\<open>*float64\<close>, \<^verbatim>\<open>*bool\<close>) is an option, \<open>None\<close> for \<^verbatim>\<open>nil\<close>. A slice is a
  list. \<^verbatim>\<open>PayloadPosition\<close> is declared elsewhere; it is taken as an integer type (the
  README writes the index as \<^verbatim>\<open>0\<close>), and only its registered validation reads it.
\<close>

datatype param = PInt int | PFloat real | PStr string | PBool bool

text \<open>
  \<^verbatim>\<open>ActionRequest\<close> is declared outside \<^verbatim>\<open>converter_schema.go\<close>; the README gives its two
  fields, \<^verbatim>\<open>Type string\<close> and \<^verbatim>\<open>Params map[string]interface{}\<close>.
\<close>

record ActionRequest =
  Type :: string
  Params :: "string \<rightharpoonup> param"

record WaylinesWaypoint =
  Latitude :: real
  Longitude :: real
  Height :: real
  Speed :: real
  TriggerType :: string
  TriggerParam :: real
  WaypointTurnMode :: string
  UseStraightLine :: "bool option"
  TurnDampingDist :: real
  Actions :: "ActionRequest list"

record Waylines =
  Name :: string
  Description :: string
  DroneModel :: string
  PayloadModel :: string
  PayloadPositionIndex :: int
  TemplateType :: string
  GlobalHeight :: real
  GlobalSpeed :: real
  PhotoSettings :: "string list"
  UseLowLightSmart :: bool
  FinishAction :: string
  HeightType :: string
  ClimbMode :: string
  SafeHeight :: real
  GlobalRTHHeight :: real
  AircraftYawMode :: string
  GimbalPitchMode :: string
  GlobalTransitionalSpeed :: real
  TakeOffRefPointLatitude :: real
  TakeOffRefPointLongitude :: real
  TakeOffRefPointHeight :: real
  TakeOffRefPointAGLHeight :: "real option"
  GlobalWaypointTurnMode :: string
  GlobalUseStraightLine :: "bool option"
  GlobalTurnDampingDist :: real
  Waypoints :: "WaylinesWaypoint list"

section \<open>ApplyDefaults\<close>

text \<open>
  Modelled from the spec: the constant \<^verbatim>\<open>HeightModeRelativeToStartPoint\<close> is declared
  outside \<^verbatim>\<open>converter_schema.go\<close>. The spec lists the height mode
  \<^verbatim>\<open>relativeToStartPoint\<close>, and the field's own tag in the source reads
  \<^verbatim>\<open>default:"relativeToStartPoint"\<close>.
\<close>

definition HeightModeRelativeToStartPoint :: string where
  "HeightModeRelativeToStartPoint = ''relativeToStartPoint''"

text \<open>
  \<^verbatim>\<open>func (w *Waylines) ApplyDefaults()\<close> writes through its pointer receiver; the model
  takes the value the receiver points to and returns the value it holds after the call.
\<close>

definition ApplyDefaults :: "Waylines \<Rightarrow> Waylines" where
  "ApplyDefaults w =
     (if HeightType w = '''' then w\<lparr>HeightType := HeightModeRelativeToStartPoint\<rparr> else w)"

section \<open>The validate tags and their reading\<close>

text \<open>
  \<^verbatim>\<open>Validate\<close> hands the value to \<^verbatim>\<open>NewWPMLValidator().ValidateStruct\<close>. What is
  checked is written in the source, as the \<^verbatim>\<open>validate:"..."\<close> tag of every field. The
  README names the library that reads the tags, go-playground/validator v10; the
  definitions of this section follow that library for the tags the two structs use.

  A field value as the library sees it by reflection: a string, a float, an integer, or
  a slice, of which only \<^verbatim>\<open>nil\<close>-ness and length matter.
\<close>

datatype fval = StrV string | FloatV real | IntV int | SliceV bool nat

text \<open>
  The model holds a slice as a list, so \<^verbatim>\<open>nil\<close> and the empty slice are one value,
  read as \<^verbatim>\<open>nil\<close>.
\<close>

definition slice :: "'a list \<Rightarrow> fval" where
  "slice xs = SliceV (xs = []) (length xs)"

datatype tag =
    Required
  | Omitempty
  | MinT real
  | MaxT real
  | Oneof "string list"
  | Custom string

text \<open>
  A violation names its field by the path the library reports:
  \<^verbatim>\<open>Waypoints[0].Latitude\<close> is \<open>[Idx ''Waypoints'' 0, Fld ''Latitude'']\<close>. A constraint
  is a field's path, its tags and its value.
\<close>

datatype seg = Fld string | Idx string nat

type_synonym path = "seg list"

type_synonym constraint = "path \<times> tag list \<times> fval"

text \<open>
  What is declared outside \<^verbatim>\<open>converter_schema.go\<close>, taken as parameters: the
  validation functions registered for the tags \<^verbatim>\<open>drone_model\<close>, \<^verbatim>\<open>payload_model\<close> and
  \<^verbatim>\<open>payload_position\<close>, and the constraints that the declaration of
  \<^verbatim>\<open>ActionRequest\<close> puts on an action request (paths inside the request).
\<close>

record registry =
  custom :: "string \<Rightarrow> fval \<Rightarrow> bool"
  action_fields :: "ActionRequest \<Rightarrow> constraint list"

text \<open>
  \<^verbatim>\<open>hasValue\<close>: a slice has a value when it is not \<^verbatim>\<open>nil\<close>, every other kind when it
  is not the zero value of its type.
\<close>

fun hasValue :: "fval \<Rightarrow> bool" where
  "hasValue (StrV s) = (s \<noteq> '''')"
| "hasValue (FloatV x) = (x \<noteq> 0)"
| "hasValue (IntV i) = (i \<noteq> 0)"
| "hasValue (SliceV isnil n) = (\<not> isnil)"

text \<open>
  One tag on one value. \<^verbatim>\<open>min\<close> and \<^verbatim>\<open>max\<close> compare a number with the parameter, and
  a string or a slice by its length (a string's length counts characters). \<^verbatim>\<open>oneof\<close>
  on a string is membership in the words of the parameter; the structs put it on strings
  only (on a float or a slice the library panics), so the other cases are given as not
  met. \<^verbatim>\<open>omitempty\<close> is no check of its own: \<open>fails\<close> below gives it its meaning.
\<close>

fun holds :: "registry \<Rightarrow> tag \<Rightarrow> fval \<Rightarrow> bool" where
  "holds r Required v = hasValue v"
| "holds r Omitempty v = True"
| "holds r (MinT p) (StrV s) = (p \<le> real (length s))"
| "holds r (MinT p) (FloatV x) = (p \<le> x)"
| "holds r (MinT p) (IntV i) = (p \<le> real_of_int i)"
| "holds r (MinT p) (SliceV isnil n) = (p \<le> real n)"
| "holds r (MaxT p) (StrV s) = (real (length s) \<le> p)"
| "holds r (MaxT p) (FloatV x) = (x \<le> p)"
| "holds r (MaxT p) (IntV i) = (real_of_int i \<le> p)"
| "holds r (MaxT p) (SliceV isnil n) = (real n \<le> p)"
| "holds r (Oneof ws) (StrV s) = (s \<in> set ws)"
| "holds r (Oneof ws) v = False"
| "holds r (Custom name) v = custom r name v"

text \<open>
  The tags of a field run left to right. \<^verbatim>\<open>omitempty\<close> ends the run without an error
  when the field has no value; any other tag that is not met ends the run with the
  field's error, so a field is reported at most once.
\<close>

fun fails :: "registry \<Rightarrow> tag list \<Rightarrow> fval \<Rightarrow> bool" where
  "fails r [] v = False"
| "fails r (Omitempty # ts) v = (if hasValue v then fails r ts v else False)"
| "fails r (t # ts) v = (if holds r t v then fails r ts v else True)"

text \<open>
  \<^verbatim>\<open>dive\<close>: the constraints of every element of a slice, in order, the element's index
  put in front of each path.
\<close>

definition dive :: "string \<Rightarrow> ('a \<Rightarrow> constraint list) \<Rightarrow> 'a list \<Rightarrow> constraint list" where
  "dive name f xs =
     concat (map (\<lambda>(i, x). map (\<lambda>(p, ts, v). (Idx name i # p, ts, v)) (f x)) (enumerate 0 xs))"

text \<open>The errors of a run over a list of constraints: the path of each field that fails.\<close>

definition violations :: "registry \<Rightarrow> constraint list \<Rightarrow> path list" where
  "violations r cs = map fst (filter (\<lambda>(p, ts, v). fails r ts v) cs)"

section \<open>The constraints the two structs declare\<close>

text \<open>
  \<^verbatim>\<open>WaylinesWaypoint\<close>, lines 32 to 43 of the source, tag by tag. \<^verbatim>\<open>UseStraightLine\<close>
  has no validate tag. \<^verbatim>\<open>Actions\<close> is \<^verbatim>\<open>validate:"dive"\<close>.
\<close>

definition turn_modes :: "string list" where
  "turn_modes = [''coordinateTurn'', ''toPointAndStopWithDiscontinuityCurvature'',
     ''toPointAndStopWithContinuityCurvature'', ''toPointAndPassWithContinuityCurvature'']"

definition trigger_types :: "string list" where
  "trigger_types = [''reachPoint'', ''passPoint'', ''manual'', ''betweenAdjacentPoints'',
     ''multipleTiming'', ''multipleDistance'']"

definition WaylinesWaypoint_fields :: "registry \<Rightarrow> WaylinesWaypoint \<Rightarrow> constraint list" where
  "WaylinesWaypoint_fields r p =
     [([Fld ''Latitude''], [Required, MinT (-90), MaxT 90], FloatV (Latitude p)),
      ([Fld ''Longitude''], [Required, MinT (-180), MaxT 180], FloatV (Longitude p)),
      ([Fld ''Height''], [Required, MinT 5, MaxT 500], FloatV (Height p)),
      ([Fld ''Speed''], [MinT 1, MaxT 15], FloatV (Speed p)),
      ([Fld ''TriggerType''], [Oneof trigger_types], StrV (TriggerType p)),
      ([Fld ''TriggerParam''], [MinT 0], FloatV (TriggerParam p)),
      ([Fld ''WaypointTurnMode''], [Omitempty, Oneof turn_modes], StrV (WaypointTurnMode p)),
      ([Fld ''TurnDampingDist''], [MinT 0], FloatV (TurnDampingDist p))]
     @ dive ''Actions'' (action_fields r) (Actions p)"

text \<open>
  \<^verbatim>\<open>Waylines\<close>, lines 3 to 30, up to \<^verbatim>\<open>GlobalTurnDampingDist\<close>. The fields
  \<^verbatim>\<open>UseLowLightSmart\<close>, \<^verbatim>\<open>FinishAction\<close>, \<^verbatim>\<open>HeightType\<close>,
  \<^verbatim>\<open>TakeOffRefPointHeight\<close>, \<^verbatim>\<open>TakeOffRefPointAGLHeight\<close> and
  \<^verbatim>\<open>GlobalUseStraightLine\<close> have no validate tag. \<^verbatim>\<open>PhotoSettings\<close> is
  \<^verbatim>\<open>dive,oneof=wide zoom ir vision\<close>: the tag after \<^verbatim>\<open>dive\<close> is on each element.
\<close>

definition Waylines_fields :: "Waylines \<Rightarrow> constraint list" where
  "Waylines_fields w =
     [([Fld ''Name''], [Required, MinT 1, MaxT 100], StrV (Name w)),
      ([Fld ''Description''], [MaxT 500], StrV (Description w)),
      ([Fld ''DroneModel''], [Required, Custom ''drone_model''], StrV (DroneModel w)),
      ([Fld ''PayloadModel''], [Required, Custom ''payload_model''], StrV (PayloadModel w)),
      ([Fld ''PayloadPositionIndex''], [Custom ''payload_position''], IntV (PayloadPositionIndex w)),
      ([Fld ''TemplateType''], [Required], StrV (TemplateType w)),
      ([Fld ''GlobalHeight''], [MinT 5, MaxT 1500], FloatV (GlobalHeight w)),
      ([Fld ''GlobalSpeed''], [MinT 1, MaxT 15], FloatV (GlobalSpeed w))]
     @ dive ''PhotoSettings'' (\<lambda>s. [([], [Oneof [''wide'', ''zoom'', ''ir'', ''vision'']], StrV s)])
         (PhotoSettings w)
     @ [([Fld ''ClimbMode''], [Oneof [''vertical'', ''inclined'']], StrV (ClimbMode w)),
      ([Fld ''SafeHeight''], [MinT 20, MaxT 200], FloatV (SafeHeight w)),
      ([Fld ''GlobalRTHHeight''], [MinT 20, MaxT 1500], FloatV (GlobalRTHHeight w)),
      ([Fld ''AircraftYawMode''],
         [Oneof [''followWayline'', ''followRoute'', ''manual'', ''free'']], StrV (AircraftYawMode w)),
      ([Fld ''GimbalPitchMode''],
         [Oneof [''usePointSetting'', ''manual'', ''free'']], StrV (GimbalPitchMode w)),
      ([Fld ''GlobalTransitionalSpeed''], [MinT 1, MaxT 15], FloatV (GlobalTransitionalSpeed w)),
      ([Fld ''TakeOffRefPointLatitude''], [MinT (-90), MaxT 90], FloatV (TakeOffRefPointLatitude w)),
      ([Fld ''TakeOffRefPointLongitude''], [MinT (-180), MaxT 180], FloatV (TakeOffRefPointLongitude w)),
      ([Fld ''GlobalWaypointTurnMode''], [Omitempty, Oneof turn_modes], StrV (GlobalWaypointTurnMode w)),
      ([Fld ''GlobalTurnDampingDist''], [MinT 0], FloatV (GlobalTurnDampingDist w))]"

text \<open>
  \<^verbatim>\<open>Waypoints\<close>, line 29, is \<^verbatim>\<open>required,min=1,dive\<close>: the tags before \<^verbatim>\<open>dive\<close> are on
  the slice.
\<close>

definition Waypoints_tags :: "tag list" where
  "Waypoints_tags = [Required, MinT 1]"

section \<open>Validate\<close>

text \<open>
  Modelled from the spec: \<^verbatim>\<open>NewWPMLValidator().ValidateStruct\<close> is not in
  \<^verbatim>\<open>converter_schema.go\<close>. By the spec (4.1) the validator checks every field and
  every waypoint against its declared constraint and returns all violations in one
  pass, each naming the offending field. Here it is the library's run over the struct:
  the fields in the order of their declaration, each field reported when its tags fail;
  when the tags in front of \<^verbatim>\<open>dive\<close> fail, the slice is reported and its elements are
  not visited. The result is the list of the paths reported, empty for \<^verbatim>\<open>nil\<close>; of
  a violation the path is kept, the tag that was not met is the first such tag of the run.
\<close>

definition ValidateStruct :: "registry \<Rightarrow> Waylines \<Rightarrow> path list" where
  "ValidateStruct r w =
     violations r (Waylines_fields w) @
     (if fails r Waypoints_tags (slice (Waypoints w)) then [[Fld ''Waypoints'']]
      else violations r (dive ''Waypoints'' (WaylinesWaypoint_fields r) (Waypoints w)))"

text \<open>\<^verbatim>\<open>func (w *Waylines) Validate() error\<close>, lines 45 to 47.\<close>

definition Validate :: "registry \<Rightarrow> Waylines \<Rightarrow> path list" where
  "Validate r w = ValidateStruct r w"

section \<open>The spec's reading of a violation\<close>

text \<open>
  The spec speaks of the declared constraints of a value and of the fields that violate
  one. These two definitions follow its words, to be compared with \<open>Validate\<close>. The
  declared constraints are those of every field, of the waypoint slice and of every
  waypoint. A constraint is violated when one of its applicable tags is not met; the
  tags behind an \<^verbatim>\<open>omitempty\<close> do not apply to a field without a value.
\<close>

definition declared :: "registry \<Rightarrow> Waylines \<Rightarrow> constraint list" where
  "declared r w =
     Waylines_fields w @
     [([Fld ''Waypoints''], Waypoints_tags, slice (Waypoints w))] @
     dive ''Waypoints'' (WaylinesWaypoint_fields r) (Waypoints w)"

definition applicable :: "tag list \<Rightarrow> fval \<Rightarrow> tag list" where
  "applicable ts v = takeWhile (\<lambda>t. t \<noteq> Omitempty \<or> hasValue v) ts"

definition spec_violated :: "registry \<Rightarrow> tag list \<Rightarrow> fval \<Rightarrow> bool" where
  "spec_violated r ts v = (\<exists>t \<in> set (applicable ts v). \<not> holds r t v)"

section \<open>The README's JSON mission\<close>

text \<open>
  The mission of the README's section ``Working with JSON'', as \<^verbatim>\<open>json.Unmarshal\<close>
  leaves it: what the JSON text does not set is the zero value of its type, and a JSON
  number in a \<^verbatim>\<open>map[string]interface{}\<close> is a \<^verbatim>\<open>float64\<close>.
\<close>

definition json_waypoint :: WaylinesWaypoint where
  "json_waypoint =
     \<lparr>Latitude = 39.9042, Longitude = 116.4074, Height = 80, Speed = 0, TriggerType = '''',
      TriggerParam = 0, WaypointTurnMode = '''', UseStraightLine = None, TurnDampingDist = 0,
      Actions = [\<lparr>Type = ''takePhoto'', Params = [''payloadPositionIndex'' \<mapsto> PFloat 0]\<rparr>]\<rparr>"

definition json_mission :: Waylines where
  "json_mission =
     \<lparr>Name = ''JSON Mission'', Description = '''', DroneModel = ''M3TD'', PayloadModel = ''M3TD'',
      PayloadPositionIndex = 0, TemplateType = ''waypoint'', GlobalHeight = 80, GlobalSpeed = 8,
      PhotoSettings = [], UseLowLightSmart = False, FinishAction = '''', HeightType = '''',
      ClimbMode = '''', SafeHeight = 0, GlobalRTHHeight = 0, AircraftYawMode = '''',
      GimbalPitchMode = '''', GlobalTransitionalSpeed = 0, TakeOffRefPointLatitude = 0,
      TakeOffRefPointLongitude = 0, TakeOffRefPointHeight = 0, TakeOffRefPointAGLHeight = None,
      GlobalWaypointTurnMode = '''', GlobalUseStraightLine = None, GlobalTurnDampingDist = 0,
      Waypoints = [json_waypoint]\<rparr>"

text \<open>
  A registry for the examples: every registered validation accepts, and an action
  request carries no constraint.
\<close>

definition accept_all :: registry where
  "accept_all = \<lparr>custom = (\<lambda>name v. True), action_fields = (\<lambda>a. [])\<rparr>"

section \<open>Properties of ApplyDefaults\<close>

text \<open>
  C9. ApplyDefaults sets HeightType to relativeToStartPoint exactly when HeightType was
  the empty string, leaves HeightType unchanged otherwise, and changes no field other
  than HeightType: putting the old HeightType back into the result gives the value
  before the call.
\<close>

theorem ApplyDefaults_frame:
  "(HeightType w = '''' \<longrightarrow> HeightType (ApplyDefaults w) = ''relativeToStartPoint'') \<and>
   (HeightType w \<noteq> '''' \<longrightarrow> HeightType (ApplyDefaults w) = HeightType w) \<and>
   (ApplyDefaults w)\<lparr>HeightType := HeightType w\<rparr> = w"
  by (simp add: ApplyDefaults_def HeightModeRelativeToStartPoint_def)

theorem ApplyDefaults_frame_witness:
  "HeightType (ApplyDefaults json_mission) = ''relativeToStartPoint'' \<and>
   HeightType (ApplyDefaults (json_mission\<lparr>HeightType := ''EGM96''\<rparr>)) = ''EGM96'' \<and>
   (ApplyDefaults json_mission)\<lparr>HeightType := ''''\<rparr> = json_mission"
  using ApplyDefaults_frame [of json_mission]
    ApplyDefaults_frame [of "json_mission\<lparr>HeightType := ''EGM96''\<rparr>"]
  by (simp add: json_mission_def)

text \<open>
  C10. ApplyDefaults is idempotent: a second call changes nothing.
\<close>

theorem ApplyDefaults_idempotent:
  "ApplyDefaults (ApplyDefaults w) = ApplyDefaults w"
  by (simp add: ApplyDefaults_def HeightModeRelativeToStartPoint_def)

section \<open>How Validate reads the declared constraints\<close>

lemma in_violations:
  "p \<in> set (violations r cs) \<longleftrightarrow> (\<exists>ts v. (p, ts, v) \<in> set cs \<and> fails r ts v)"
  by (force simp: violations_def)

lemma in_dive:
  "(q, ts, v) \<in> set (dive name f xs) \<longleftrightarrow>
     (\<exists>i p. i < length xs \<and> q = Idx name i # p \<and> (p, ts, v) \<in> set (f (xs ! i)))"
  by (force simp: dive_def in_set_enumerate_eq)

lemma dive_Nil: "dive name f [] = []"
  by (simp add: dive_def)

text \<open>
  The run over a field's tags stops at the first tag that is not met; it fails exactly
  when some applicable tag is not met.
\<close>

lemma fails_iff_spec_violated: "fails r ts v \<longleftrightarrow> spec_violated r ts v"
proof (induction ts)
  case Nil
  show ?case by (simp add: spec_violated_def applicable_def)
next
  case (Cons t ts)
  then show ?case
    by (cases t) (auto simp: spec_violated_def applicable_def)
qed

text \<open>
  \<^verbatim>\<open>required,min=1\<close> fails on the waypoint slice exactly when it has no element: a
  \<^verbatim>\<open>nil\<close> slice fails \<^verbatim>\<open>required\<close>, an empty one that is not \<^verbatim>\<open>nil\<close> fails
  \<^verbatim>\<open>min=1\<close>. So the two values that the list model does not tell apart are reported
  alike, and the elements that \<open>ValidateStruct\<close> does not visit do not exist.
\<close>

lemma Waypoints_tags_fail: "fails r Waypoints_tags (slice ws) \<longleftrightarrow> ws = []"
  by (cases ws) (simp_all add: Waypoints_tags_def slice_def)

lemma Waypoints_tags_nil_or_empty: "fails r Waypoints_tags (SliceV isnil 0)"
  by (simp add: Waypoints_tags_def)

lemma Validate_declared: "Validate r w = violations r (declared r w)"
  by (simp add: Validate_def ValidateStruct_def declared_def violations_def
      Waypoints_tags_fail dive_Nil)

lemma Validate_eq_spec_violated:
  "Validate r w = map fst (filter (\<lambda>(p, ts, v). spec_violated r ts v) (declared r w))"
  by (simp add: Validate_declared violations_def fails_iff_spec_violated)

lemma in_Validate:
  "p \<in> set (Validate r w) \<longleftrightarrow> (\<exists>ts v. (p, ts, v) \<in> set (declared r w) \<and> fails r ts v)"
  by (simp add: Validate_declared in_violations)

lemma waypoint_field:
  "[Idx ''Waypoints'' i, Fld f] \<in> set (Validate r w) \<longleftrightarrow>
     i < length (Waypoints w) \<and>
     (\<exists>ts v. ([Fld f], ts, v) \<in> set (WaylinesWaypoint_fields r (Waypoints w ! i)) \<and> fails r ts v)"
  by (auto simp add: in_Validate declared_def Waylines_fields_def in_dive)

section \<open>Field by field\<close>

lemma Name_violation:
  "[Fld ''Name''] \<in> set (Validate r w) \<longleftrightarrow> fails r [Required, MinT 1, MaxT 100] (StrV (Name w))"
  by (simp add: in_Validate declared_def Waylines_fields_def in_dive)

lemma Waypoints_violation:
  "[Fld ''Waypoints''] \<in> set (Validate r w) \<longleftrightarrow> Waypoints w = []"
  by (simp add: in_Validate declared_def Waylines_fields_def in_dive Waypoints_tags_fail)

lemma GlobalHeight_violation:
  "[Fld ''GlobalHeight''] \<in> set (Validate r w) \<longleftrightarrow> GlobalHeight w < 5 \<or> 1500 < GlobalHeight w"
  by (auto simp add: in_Validate declared_def Waylines_fields_def in_dive)

lemma GlobalSpeed_violation:
  "[Fld ''GlobalSpeed''] \<in> set (Validate r w) \<longleftrightarrow> GlobalSpeed w < 1 \<or> 15 < GlobalSpeed w"
  by (auto simp add: in_Validate declared_def Waylines_fields_def in_dive)

lemma Latitude_violation:
  "[Idx ''Waypoints'' i, Fld ''Latitude''] \<in> set (Validate r w) \<longleftrightarrow>
     i < length (Waypoints w) \<and>
     (Latitude (Waypoints w ! i) = 0 \<or> Latitude (Waypoints w ! i) < -90 \<or>
      90 < Latitude (Waypoints w ! i))"
  by (auto simp add: waypoint_field WaylinesWaypoint_fields_def in_dive)

lemma Longitude_violation:
  "[Idx ''Waypoints'' i, Fld ''Longitude''] \<in> set (Validate r w) \<longleftrightarrow>
     i < length (Waypoints w) \<and>
     (Longitude (Waypoints w ! i) = 0 \<or> Longitude (Waypoints w ! i) < -180 \<or>
      180 < Longitude (Waypoints w ! i))"
  by (auto simp add: waypoint_field WaylinesWaypoint_fields_def in_dive)

lemma Speed_violation:
  "[Idx ''Waypoints'' i, Fld ''Speed''] \<in> set (Validate r w) \<longleftrightarrow>
     i < length (Waypoints w) \<and> (Speed (Waypoints w ! i) < 1 \<or> 15 < Speed (Waypoints w ! i))"
  by (auto simp add: waypoint_field WaylinesWaypoint_fields_def in_dive)

lemma TriggerType_violation:
  "[Idx ''Waypoints'' i, Fld ''TriggerType''] \<in> set (Validate r w) \<longleftrightarrow>
     i < length (Waypoints w) \<and> TriggerType (Waypoints w ! i) \<notin> set trigger_types"
  by (auto simp add: waypoint_field WaylinesWaypoint_fields_def in_dive)

lemma TriggerParam_violation:
  "[Idx ''Waypoints'' i, Fld ''TriggerParam''] \<in> set (Validate r w) \<longleftrightarrow>
     i < length (Waypoints w) \<and> TriggerParam (Waypoints w ! i) < 0"
  by (auto simp add: waypoint_field WaylinesWaypoint_fields_def in_dive)

lemma WaypointTurnMode_violation:
  "[Idx ''Waypoints'' i, Fld ''WaypointTurnMode''] \<in> set (Validate r w) \<longleftrightarrow>
     i < length (Waypoints w) \<and> WaypointTurnMode (Waypoints w ! i) \<noteq> '''' \<and>
     WaypointTurnMode (Waypoints w ! i) \<notin> set turn_modes"
  by (auto simp add: waypoint_field WaylinesWaypoint_fields_def in_dive)

section \<open>The README's JSON mission under Validate\<close>

text \<open>
  The whole list for the README's JSON mission, in the order of the run: the fields the
  JSON text leaves out and whose tags have neither \<^verbatim>\<open>omitempty\<close> nor a range that
  holds the zero value.
\<close>

lemma json_mission_violations:
  "Validate accept_all json_mission =
     [[Fld ''ClimbMode''], [Fld ''SafeHeight''], [Fld ''GlobalRTHHeight''],
      [Fld ''AircraftYawMode''], [Fld ''GimbalPitchMode''], [Fld ''GlobalTransitionalSpeed''],
      [Idx ''Waypoints'' 0, Fld ''Speed''], [Idx ''Waypoints'' 0, Fld ''TriggerType'']]"
  by (simp add: Validate_def ValidateStruct_def violations_def Waylines_fields_def
      WaylinesWaypoint_fields_def Waypoints_tags_def slice_def dive_def json_mission_def
      json_waypoint_def accept_all_def trigger_types_def turn_modes_def enumerate_eq_zip)

section \<open>Properties of Validate\<close>

text \<open>
  C2. Validate names every field whose declared constraint is violated, with the
  waypoint's index where the field is a waypoint's, however many there are: whatever
  constraint the value declares and violates, its path is in the list returned.
\<close>

theorem Validate_names_every_violation:
  "(p, ts, v) \<in> set (declared r w) \<Longrightarrow> spec_violated r ts v \<Longrightarrow> p \<in> set (Validate r w)"
  by (force simp: Validate_eq_spec_violated)

text \<open>
  The spec's example, latitude 200 and height 3000 on one waypoint: both fields are
  named.
\<close>

theorem Validate_names_every_violation_witness:
  "[Idx ''Waypoints'' 0, Fld ''Latitude''] \<in>
     set (Validate accept_all (json_mission\<lparr>Waypoints := [json_waypoint\<lparr>Latitude := 200, Height := 3000\<rparr>]\<rparr>)) \<and>
   [Idx ''Waypoints'' 0, Fld ''Height''] \<in>
     set (Validate accept_all (json_mission\<lparr>Waypoints := [json_waypoint\<lparr>Latitude := 200, Height := 3000\<rparr>]\<rparr>))"
proof -
  let ?w = "json_mission\<lparr>Waypoints := [json_waypoint\<lparr>Latitude := 200, Height := 3000\<rparr>]\<rparr>"
  have lat: "([Idx ''Waypoints'' 0, Fld ''Latitude''], [Required, MinT (-90), MaxT 90], FloatV 200)
      \<in> set (declared accept_all ?w)"
    by (simp add: declared_def in_dive WaylinesWaypoint_fields_def)
  have hgt: "([Idx ''Waypoints'' 0, Fld ''Height''], [Required, MinT 5, MaxT 500], FloatV 3000)
      \<in> set (declared accept_all ?w)"
    by (simp add: declared_def in_dive WaylinesWaypoint_fields_def)
  have v1: "spec_violated accept_all [Required, MinT (-90), MaxT 90] (FloatV 200)"
    by (simp add: spec_violated_def applicable_def)
  have v2: "spec_violated accept_all [Required, MinT 5, MaxT 500] (FloatV 3000)"
    by (simp add: spec_violated_def applicable_def)
  show ?thesis
    using Validate_names_every_violation [OF lat v1] Validate_names_every_violation [OF hgt v2]
    by simp
qed

text \<open>
  C3. A waypoint on the equator: latitude 0 lies in -90..90, and Validate reports the
  waypoint's latitude all the same, since \<^verbatim>\<open>required\<close> is not met by the zero value.
  (\<open>Latitude_violation\<close> and \<open>Longitude_violation\<close> give every value that is reported:
  zero, and what lies outside the range.)
\<close>

theorem Validate_reports_latitude_zero:
  "[Idx ''Waypoints'' 0, Fld ''Latitude''] \<in>
     set (Validate r (json_mission\<lparr>Waypoints := [json_waypoint\<lparr>Latitude := 0\<rparr>]\<rparr>))"
  by (simp add: Latitude_violation)

text \<open>
  C4. The JSON mission with its global height and global speed left unset: Validate
  reports both fields, since their tags have no \<^verbatim>\<open>omitempty\<close> and zero is below
  \<^verbatim>\<open>min\<close>. (\<open>GlobalHeight_violation\<close> and \<open>GlobalSpeed_violation\<close> give every value that
  is reported: what lies outside 5..1500 and 1..15, zero included.)
\<close>

theorem Validate_reports_unset_GlobalHeight_GlobalSpeed:
  "[Fld ''GlobalHeight''] \<in> set (Validate r (json_mission\<lparr>GlobalHeight := 0, GlobalSpeed := 0\<rparr>)) \<and>
   [Fld ''GlobalSpeed''] \<in> set (Validate r (json_mission\<lparr>GlobalHeight := 0, GlobalSpeed := 0\<rparr>))"
  by (simp add: GlobalHeight_violation GlobalSpeed_violation)

text \<open>
  C5. The README's JSON mission as it stands: its waypoint sets no speed and no trigger
  type, and Validate reports both fields; it reports neither the trigger parameter nor
  the turn mode, which the waypoint does not set either.
\<close>

theorem Validate_reports_unset_Speed_TriggerType:
  "[Idx ''Waypoints'' 0, Fld ''Speed''] \<in> set (Validate r json_mission) \<and>
   [Idx ''Waypoints'' 0, Fld ''TriggerType''] \<in> set (Validate r json_mission) \<and>
   [Idx ''Waypoints'' 0, Fld ''TriggerParam''] \<notin> set (Validate r json_mission) \<and>
   [Idx ''Waypoints'' 0, Fld ''WaypointTurnMode''] \<notin> set (Validate r json_mission)"
  by (simp add: Speed_violation TriggerType_violation TriggerParam_violation
      WaypointTurnMode_violation json_mission_def json_waypoint_def trigger_types_def)

text \<open>
  C6. Validate names the field \<^verbatim>\<open>Name\<close> exactly when the name is empty or longer than
  100 characters, and the field \<^verbatim>\<open>Waypoints\<close> exactly when there is no waypoint. So a
  mission with an empty or too long name, or without a waypoint, gets a list that is
  not empty and names the field, and a mission with a name of 1 to 100 characters and a
  waypoint gets no violation on these two fields.
\<close>

theorem Validate_Name_Waypoints:
  "([Fld ''Name''] \<in> set (Validate r w) \<longleftrightarrow> Name w = '''' \<or> 100 < length (Name w)) \<and>
   ([Fld ''Waypoints''] \<in> set (Validate r w) \<longleftrightarrow> Waypoints w = []) \<and>
   (Name w = '''' \<or> 100 < length (Name w) \<or> Waypoints w = [] \<longrightarrow> Validate r w \<noteq> [])"
proof -
  have "fails r [Required, MinT 1, MaxT 100] (StrV (Name w)) \<longleftrightarrow>
          Name w = '''' \<or> 100 < length (Name w)"
    by (cases "Name w") auto
  then have name: "[Fld ''Name''] \<in> set (Validate r w) \<longleftrightarrow>
          Name w = '''' \<or> 100 < length (Name w)"
    by (simp only: Name_violation)
  have wps: "[Fld ''Waypoints''] \<in> set (Validate r w) \<longleftrightarrow> Waypoints w = []"
    by (rule Waypoints_violation)
  have "Validate r w \<noteq> []"
    if "Name w = '''' \<or> 100 < length (Name w) \<or> Waypoints w = []"
  proof -
    from that name wps
    have "[Fld ''Name''] \<in> set (Validate r w) \<or> [Fld ''Waypoints''] \<in> set (Validate r w)"
      by blast
    then show ?thesis by auto
  qed
  with name wps show ?thesis by blast
qed

text \<open>
  The JSON mission without its name, and without its waypoint; as it stands, neither
  field is named.
\<close>

theorem Validate_Name_Waypoints_witness:
  "[Fld ''Name''] \<in> set (Validate accept_all (json_mission\<lparr>Name := ''''\<rparr>)) \<and>
   Validate accept_all (json_mission\<lparr>Name := ''''\<rparr>) \<noteq> [] \<and>
   [Fld ''Waypoints''] \<in> set (Validate accept_all (json_mission\<lparr>Waypoints := []\<rparr>)) \<and>
   Validate accept_all (json_mission\<lparr>Waypoints := []\<rparr>) \<noteq> [] \<and>
   [Fld ''Name''] \<notin> set (Validate accept_all json_mission) \<and>
   [Fld ''Waypoints''] \<notin> set (Validate accept_all json_mission)"
  using Validate_Name_Waypoints [of accept_all "json_mission\<lparr>Name := ''''\<rparr>"]
    Validate_Name_Waypoints [of accept_all "json_mission\<lparr>Waypoints := []\<rparr>"]
    Validate_Name_Waypoints [of accept_all json_mission]
  by (simp add: json_mission_def)

end
